theory Spec2Isabelle
  imports Complex_Main "HOL-Library.Sublist"
begin

section \<open>Values and errors of the JavaScript program\<close>

text \<open>
  The adapter is JavaScript. Numbers are modelled as exact rationals (\<open>rat\<close>): the
  readings the cloud API delivers are integers (millivolts, signal units, seconds), on
  which the arithmetic below stays within the integers or is clamped or floored, so the
  rounding of IEEE doubles is not part of the model. \<open>NaN\<close> is a value of its own.
  A thrown exception (or a rejected promise) is a value of type \<open>js_error\<close>, the left
  summand of a result.
\<close>

datatype js_error =
    Error string      \<comment> \<open>\<open>new Error(message)\<close>\<close>
  | TypeError         \<comment> \<open>a property read on \<open>undefined\<close>\<close>
  | FetchError        \<comment> \<open>\<open>fetch\<close> rejected: no response arrived\<close>
  | JsonError         \<comment> \<open>\<open>response.json()\<close> rejected: the body is not JSON\<close>
  | RangeError        \<comment> \<open>\<open>toISOString()\<close> on an invalid date\<close>

datatype jsval =
    Undefined
  | Null
  | NaN
  | Num rat
  | Str string

text \<open>Truthiness, as \<open>if (v)\<close> and \<open>!v\<close> read a value.\<close>

fun truthy :: "jsval \<Rightarrow> bool" where
  "truthy Undefined = False"
| "truthy Null = False"
| "truthy NaN = False"
| "truthy (Num n) = (n \<noteq> 0)"
| "truthy (Str s) = (s \<noteq> [])"

section \<open>Signal and battery interpolation (adapter.js)\<close>

text \<open>\<open>function clamp(num, max = 100, min = 0)\<close>: \<open>Math.max(Math.min(num, max), min)\<close>.\<close>

definition clamp :: "rat \<Rightarrow> rat \<Rightarrow> rat \<Rightarrow> rat" where
  "clamp num mx mn = max (min num mx) mn"

text \<open>\<open>mapSignalToPercent(signal, min, range = 30)\<close>, with both defaults of \<open>clamp\<close>.\<close>

definition mapSignalToPercent :: "rat \<Rightarrow> rat \<Rightarrow> rat \<Rightarrow> rat" where
  "mapSignalToPercent signal mn rng = clamp (((mn - signal) / rng) * 90 + 10) 100 0"

definition mapRfToPercent :: "rat \<Rightarrow> rat" where
  "mapRfToPercent rf = mapSignalToPercent rf 90 30"

text \<open>
  The table \<open>LEVELS\<close> of \<open>interpolateBattery\<close>: one entry, for the module type
  \<open>NRV\<close>. \<open>Object.values\<close> lists the five levels (empty, low, medium, high, full)
  in the order they are written.
\<close>

record levelDefinition =
  lv_empty :: rat
  lv_low :: rat
  lv_medium :: rat
  lv_high :: rat
  lv_full :: rat

definition LEVELS :: "string \<Rightarrow> levelDefinition option" where
  "LEVELS moduleType =
     (if moduleType = ''NRV''
      then Some \<lparr>lv_empty = 2200, lv_low = 2200, lv_medium = 2400, lv_high = 2700, lv_full = 3200\<rparr>
      else None)"

definition object_values :: "levelDefinition \<Rightarrow> rat list" where
  "object_values d = [lv_empty d, lv_low d, lv_medium d, lv_high d, lv_full d]"

definition steps :: "rat list" where
  "steps = [20, 50, 80, 100]"

text \<open>
  \<open>interpolateBattery(batteryLevel, moduleType)\<close>. For a module type that is not in
  the table, \<open>Object.values(undefined)\<close> throws a TypeError. The index \<open>i\<close> is 1, 2
  or 3 where the lists are read, so every read is in range.
\<close>

definition interpolateBattery :: "rat \<Rightarrow> string \<Rightarrow> js_error + int" where
  "interpolateBattery batteryLevel moduleType =
     (case LEVELS moduleType of
        None \<Rightarrow> Inl TypeError
      | Some levelDefinition \<Rightarrow>
          (let levels = object_values levelDefinition in
           if batteryLevel \<ge> lv_full levelDefinition then Inr 100
           else
             (case (if batteryLevel \<ge> lv_high levelDefinition then Some (3::nat)
                    else if batteryLevel \<ge> lv_medium levelDefinition then Some 2
                    else if batteryLevel \<ge> lv_low levelDefinition then Some 1
                    else None) of
                None \<Rightarrow> Inr 0
              | Some i \<Rightarrow>
                  Inr \<lfloor>steps ! (i - 1) +
                       (steps ! i - steps ! (i - 1)) * (batteryLevel - levels ! i)
                         / (levels ! (i + 1) - levels ! i)\<rfloor>)))"

section \<open>Device ids (adapter.js)\<close>

definition DEVICE_PREFIX :: string where
  "DEVICE_PREFIX = ''thermostat-room-''"

text \<open>
  \<open>s.replace(pattern, replacement)\<close> with a string pattern: the first occurrence of
  the pattern is replaced, the rest of the string is kept. The replacement is taken
  literally (the only call passes the empty string).
\<close>

fun js_replace :: "string \<Rightarrow> string \<Rightarrow> string \<Rightarrow> string" where
  "js_replace [] pat rep = (if pat = [] then rep else [])"
| "js_replace (c # cs) pat rep =
     (if prefix pat (c # cs) then rep @ drop (length pat) (c # cs)
      else c # js_replace cs pat rep)"

text \<open>\<open>s.split(sep)\<close> for a separator of one character: the empty string gives \<open>['']\<close>.\<close>

fun js_split :: "string \<Rightarrow> char \<Rightarrow> string list" where
  "js_split [] sep = [[]]"
| "js_split (c # cs) sep =
     (if c = sep then [] # js_split cs sep
      else (case js_split cs sep of
              [] \<Rightarrow> [[c]]
            | w # ws \<Rightarrow> (c # w) # ws))"

text \<open>\<open>RoomDevice.getIds()\<close>, on the device's id.\<close>

definition getIds :: "string \<Rightarrow> string list" where
  "getIds device_id = js_split (js_replace device_id DEVICE_PREFIX []) CHR ''-''"

text \<open>
  The id \<open>createDevices\<close> gives the device of a room: the prefix, then the home's
  id, a hyphen and the room's id. The part after the prefix is the key of the device in
  \<open>this.devices\<close>.
\<close>

definition device_key :: "string \<Rightarrow> string \<Rightarrow> string" where
  "device_key home_id room_id = home_id @ ''-'' @ room_id"

definition room_device_id :: "string \<Rightarrow> string \<Rightarrow> string" where
  "room_device_id home_id room_id = DEVICE_PREFIX @ device_key home_id room_id"

section \<open>The cloud client and its token store (netatmo.js)\<close>

text \<open>
  The object \<open>this.config\<close>. A token that is \<open>undefined\<close> and the empty string are
  both falsy and are both the empty string here; \<open>expires\<close> is \<open>None\<close> when it is
  \<open>undefined\<close> or \<open>NaN\<close> (both falsy as well). Times are milliseconds.
\<close>

record token_data =
  access_token :: string
  expires_in :: "int option"
  refresh_token :: string

record netatmo_config =
  token :: string
  expires :: "int option"
  refresh_token :: string
  client_id :: string
  client_secret :: string

text \<open>A call of \<open>fetch\<close>: the URL, the form body and the Authorization header.\<close>

record request =
  url :: string
  body :: "(string \<times> jsval) list"
  authorization :: "string option"

text \<open>
  The state of a \<open>Netatmo\<close> object together with the parts of its environment it
  acts on: the one-shot timers of the event loop that are pending (handle and delay;
  every one of them calls \<open>refresh\<close> when it fires), the requests handed to
  \<open>fetch\<close>, and the values handed to \<open>addToConfig\<close> (\<open>expires\<close> and
  \<open>refresh_token\<close>, the two fields \<open>updateConfig\<close> writes), oldest first.
\<close>

record netatmo =
  config :: netatmo_config
  refreshInterval :: "nat option"
  timers :: "(nat \<times> int) list"
  timer_count :: nat
  fetched :: "request list"
  saved :: "(int option \<times> string) list"

text \<open>
  What the environment answers to a \<open>fetch\<close>: the promise rejects, or a response
  arrives with its status and with what \<open>response.json()\<close> will give.
  \<open>response.ok\<close> is true for the statuses 200 to 299.
\<close>

datatype 'a fetched = Rejected | Response nat 'a

definition ok :: "nat \<Rightarrow> bool" where
  "ok status = (200 \<le> status \<and> status < 300)"

definition setTimeout :: "int \<Rightarrow> netatmo \<Rightarrow> nat \<times> netatmo" where
  "setTimeout delay s =
     (timer_count s,
      s\<lparr>timers := timers s @ [(timer_count s, delay)], timer_count := Suc (timer_count s)\<rparr>)"

definition clearTimeout :: "nat \<Rightarrow> netatmo \<Rightarrow> netatmo" where
  "clearTimeout h s = s\<lparr>timers := filter (\<lambda>t. fst t \<noteq> h) (timers s)\<rparr>"

definition fetch :: "request \<Rightarrow> netatmo \<Rightarrow> netatmo" where
  "fetch r s = s\<lparr>fetched := fetched s @ [r]\<rparr>"

definition updateConfig :: "netatmo \<Rightarrow> netatmo" where
  "updateConfig s = s\<lparr>saved := saved s @ [(expires (config s), refresh_token (config s))]\<rparr>"

definition set_token :: "string \<Rightarrow> netatmo \<Rightarrow> netatmo" where
  "set_token t s = s\<lparr>config := (config s)\<lparr>token := t\<rparr>\<rparr>"

definition token_url :: string where
  "token_url = ''https://api.netatmo.com/oauth2/token''"

text \<open>
  \<open>refresh()\<close> is an async function. \<open>refresh_begin\<close> is its body up to the
  \<open>await fetch\<close>: it runs at once when \<open>refresh()\<close> is called, and tells whether a
  request is now in flight. \<open>refresh_resume\<close> is the rest, run when the environment
  answers; \<open>now\<close> is the clock where the expiry is computed and \<open>now'\<close> the clock
  when \<open>initRefresh\<close> reads it, after the configuration was saved. The error of
  \<open>refresh_resume\<close> is the rejection of the promise \<open>refresh()\<close> returned, which no
  caller awaits.

  After the three fields are stored, \<open>refresh\<close> logs
  \<open>new Date(this.config.expires).toISOString()\<close>. That call throws a RangeError when
  the time is \<open>NaN\<close> (the response had no \<open>expires_in\<close>) or lies outside the range
  of \<open>Date\<close>, 8640000000000000 milliseconds either side of the epoch; the
  configuration is then not saved and the scheduler not armed. \<open>date_valid\<close> tells
  whether the call returns.
\<close>

definition date_valid :: "int option \<Rightarrow> bool" where
  "date_valid t =
     (case t of
        None \<Rightarrow> False
      | Some x \<Rightarrow> - 8640000000000000 \<le> x \<and> x \<le> 8640000000000000)"

definition refresh_begin :: "netatmo \<Rightarrow> bool \<times> netatmo" where
  "refresh_begin s =
     (let s1 = set_token [] (s\<lparr>refreshInterval := None\<rparr>) in
      if refresh_token (config s1) = [] then (False, s1)
      else (True,
        fetch \<lparr>url = token_url,
               body = [(''grant_type'', Str ''refresh_token''),
                       (''refresh_token'', Str (refresh_token (config s1))),
                       (''client_id'', Str (client_id (config s1))),
                       (''client_secret'', Str (client_secret (config s1)))],
               authorization = None\<rparr> s1))"

definition store_tokens :: "token_data \<Rightarrow> int \<Rightarrow> netatmo \<Rightarrow> netatmo" where
  "store_tokens data now s =
     s\<lparr>config := (config s)
          \<lparr>token := access_token data,
           expires := map_option (\<lambda>e. now + e * 1000) (expires_in data),
           refresh_token := token_data.refresh_token data\<rparr>\<rparr>"

definition initRefresh :: "int \<Rightarrow> netatmo \<Rightarrow> netatmo" where
  "initRefresh now s =
     (let expiresIn =
            (case expires (config s) of
               None \<Rightarrow> now
             | Some e \<Rightarrow> if e = 0 then now else e) - now
      in if expiresIn > 0 \<and> token (config s) \<noteq> []
         then (case setTimeout expiresIn s of (h, s') \<Rightarrow> s'\<lparr>refreshInterval := Some h\<rparr>)
         else snd (refresh_begin s))"

definition refresh_resume ::
  "token_data option fetched \<Rightarrow> int \<Rightarrow> int \<Rightarrow> netatmo \<Rightarrow> js_error option \<times> netatmo" where
  "refresh_resume reply now now' s =
     (case reply of
        Rejected \<Rightarrow> (Some FetchError, s)
      | Response status json \<Rightarrow>
          if \<not> ok status \<or> status \<noteq> 200
          then (None, updateConfig (s\<lparr>config := (config s)\<lparr>token := [], refresh_token := []\<rparr>\<rparr>))
          else (case json of
                  None \<Rightarrow> (Some JsonError, s)
                | Some data \<Rightarrow>
                    (let s1 = store_tokens data now s in
                     if date_valid (expires (config s1))
                     then (None, initRefresh now' (updateConfig s1))
                     else (Some RangeError, s1))))"

definition refresh ::
  "token_data option fetched \<Rightarrow> int \<Rightarrow> int \<Rightarrow> netatmo \<Rightarrow> js_error option \<times> netatmo" where
  "refresh reply now now' s =
     (case refresh_begin s of
        (False, s1) \<Rightarrow> (None, s1)
      | (True, s1) \<Rightarrow> refresh_resume reply now now' s1)"

text \<open>
  A pending timer fires: it leaves the event loop and its callback,
  \<open>() => this.refresh()\<close>, starts a refresh.
\<close>

definition timer_fires :: "nat \<Rightarrow> netatmo \<Rightarrow> bool \<times> netatmo" where
  "timer_fires h s =
     (if h \<in> set (map fst (timers s))
      then refresh_begin (s\<lparr>timers := filter (\<lambda>t. fst t \<noteq> h) (timers s)\<rparr>)
      else (False, s))"

text \<open>The constructor, \<open>needsAuth\<close> and \<open>unInit\<close>.\<close>

definition new_Netatmo :: "netatmo_config \<Rightarrow> int \<Rightarrow> netatmo" where
  "new_Netatmo cfg now =
     (let s = \<lparr>config = cfg, refreshInterval = None, timers = [], timer_count = 0,
                fetched = [], saved = []\<rparr>
      in if refresh_token cfg \<noteq> [] then initRefresh now s else s)"

definition needsAuth :: "netatmo \<Rightarrow> bool" where
  "needsAuth s = (refresh_token (config s) = [])"

definition unInit :: "netatmo \<Rightarrow> netatmo" where
  "unInit s = (case refreshInterval s of None \<Rightarrow> s | Some h \<Rightarrow> clearTimeout h s)"

subsection \<open>The authorization-code flow\<close>

text \<open>
  \<open>authenticate\<close> is an async generator. Its first part draws the random nonce
  \<open>state\<close> and yields the authorization URL; it changes nothing. The rest runs when
  the caller resumes it with the callback payload \<open>data\<close>, whose fields are the query
  parameters of the redirect: strings, or absent. \<open>authenticate_check\<close> is the part up
  to the \<open>await fetch\<close>, \<open>authenticate_exchange\<close> the part after it.
\<close>

record callback =
  cb_state :: "string option"
  cb_code :: "string option"
  cb_error :: "string option"

fun truthy_str :: "string option \<Rightarrow> bool" where
  "truthy_str None = False"
| "truthy_str (Some s) = (s \<noteq> [])"

fun template :: "string option \<Rightarrow> string" where
  "template None = ''undefined''"
| "template (Some s) = s"

fun join :: "string \<Rightarrow> string list \<Rightarrow> string" where
  "join sep [] = []"
| "join sep [x] = x"
| "join sep (x # y # ys) = x @ sep @ join sep (y # ys)"

definition authenticate_check ::
  "string list \<Rightarrow> string \<Rightarrow> string \<Rightarrow> callback \<Rightarrow> netatmo \<Rightarrow> js_error option \<times> netatmo" where
  "authenticate_check scopes redirectUri state data s =
     (if \<not> truthy_str (cb_state data) \<or> cb_state data \<noteq> Some state \<or> \<not> truthy_str (cb_code data)
      then (Some (Error (''Authentication flow failed. Possible error: '' @ template (cb_error data))), s)
      else (None,
        fetch \<lparr>url = token_url,
               body = [(''scope'', Str (join '' '' scopes)),
                       (''code'', Str (template (cb_code data))),
                       (''grant_type'', Str ''authorization_code''),
                       (''client_id'', Str (client_id (config s))),
                       (''client_secret'', Str (client_secret (config s))),
                       (''redirect_uri'', Str redirectUri)],
               authorization = None\<rparr> s))"

definition authenticate_exchange ::
  "token_data option fetched \<Rightarrow> int \<Rightarrow> int \<Rightarrow> netatmo \<Rightarrow> js_error option \<times> netatmo" where
  "authenticate_exchange reply now now' s =
     (case reply of
        Rejected \<Rightarrow> (Some FetchError, s)
      | Response status json \<Rightarrow>
          if \<not> ok status \<or> status \<noteq> 200
          then (Some (Error ''Authentication flow failed while retrieving token.''), s)
          else (case json of
                  None \<Rightarrow> (Some JsonError, s)
                | Some tokenData \<Rightarrow>
                    (None, initRefresh now' (updateConfig (store_tokens tokenData now s)))))"

definition authenticate_resume ::
  "string list \<Rightarrow> string \<Rightarrow> string \<Rightarrow> callback \<Rightarrow> token_data option fetched \<Rightarrow> int \<Rightarrow> int \<Rightarrow>
   netatmo \<Rightarrow> js_error option \<times> netatmo" where
  "authenticate_resume scopes redirectUri state data reply now now' s =
     (case authenticate_check scopes redirectUri state data s of
        (Some e, s1) \<Rightarrow> (Some e, s1)
      | (None, s1) \<Rightarrow> authenticate_exchange reply now now' s1)"

subsection \<open>The four operations of the cloud API\<close>

text \<open>
  The records of the API that the adapter reads, and what \<open>response.json()\<close> gives
  for each endpoint, as far as the code looks into it.
\<close>

record room =
  room_id :: string
  room_name :: string

record module =
  mod_id :: string
  mod_name :: string
  mod_type :: string
  mod_room_id :: string

record home =
  home_id :: string
  home_name :: string
  home_rooms :: "room list"
  home_modules :: "module list"

record room_status =
  rs_id :: string
  therm_measured_temperature :: jsval
  therm_setpoint_temperature :: jsval
  heating_power_request :: rat

record module_status =
  ms_id :: string
  ms_type :: string
  battery_level :: rat
  rf_strength :: rat

record home_status =
  hs_rooms :: "room_status list"
  hs_modules :: "module_status list"

datatype homesdata_json =
    HD_invalid                \<comment> \<open>\<open>json()\<close> rejects\<close>
  | HD_no_body                \<comment> \<open>\<open>data.body\<close> is undefined: reading \<open>.homes\<close> throws\<close>
  | HD_not_array              \<comment> \<open>\<open>data.body.homes\<close> is not an array\<close>
  | HD_homes "home list"

datatype homestatus_json =
    HS_invalid                \<comment> \<open>\<open>json()\<close> rejects\<close>
  | HS_no_body                \<comment> \<open>\<open>data.body\<close> is undefined: reading \<open>.home\<close> throws\<close>
  | HS_no_home                \<comment> \<open>\<open>data.body.home\<close> is undefined\<close>
  | HS_home home_status

datatype 'b set_json =
    SJ_invalid                \<comment> \<open>\<open>json()\<close> rejects\<close>
  | SJ_null                   \<comment> \<open>\<open>data\<close> is null: reading \<open>.body\<close> throws\<close>
  | SJ_body 'b                \<comment> \<open>\<open>data.body\<close>, whatever it is\<close>

text \<open>An operation returns the literal \<open>[]\<close> or the payload it read.\<close>

datatype 'a returned = EmptyArray | Payload 'a

definition bearer :: "netatmo \<Rightarrow> string option" where
  "bearer s = Some (''Bearer '' @ token (config s))"

text \<open>
  The form body of a request: each field is appended, in the order written, when its
  value is truthy (\<open>if (homeId) { body.append('home_id', homeId); }\<close>).
\<close>

definition form :: "(string \<times> jsval) list \<Rightarrow> (string \<times> jsval) list" where
  "form entries = filter (\<lambda>f. truthy (snd f)) entries"

text \<open>
  The branch every operation takes on a 403: \<open>this.config.token = ''\<close>, then
  \<open>this.refresh()\<close> (not awaited, so only \<open>refresh_begin\<close> runs before the throw).
\<close>

definition forbidden :: "netatmo \<Rightarrow> netatmo" where
  "forbidden s = snd (refresh_begin (set_token [] s))"

definition getHomeData_begin :: "jsval \<Rightarrow> netatmo \<Rightarrow> js_error option \<times> netatmo" where
  "getHomeData_begin homeId s =
     (if token (config s) = [] then (Some (Error ''No token found''), s)
      else (None,
        fetch \<lparr>url = ''https://api.netatmo.com/api/homesdata'',
               body = form [(''home_id'', homeId)],
               authorization = bearer s\<rparr> s))"

definition getHomeData_resume ::
  "homesdata_json fetched \<Rightarrow> netatmo \<Rightarrow> (js_error + home list) \<times> netatmo" where
  "getHomeData_resume reply s =
     (case reply of
        Rejected \<Rightarrow> (Inl FetchError, s)
      | Response status json \<Rightarrow>
          if \<not> ok status \<or> status \<noteq> 200
          then (if status = 403 then (Inl (Error ''Unauthorized''), forbidden s)
                else (Inr [], s))
          else (case json of
                  HD_invalid \<Rightarrow> (Inl JsonError, s)
                | HD_no_body \<Rightarrow> (Inl TypeError, s)
                | HD_not_array \<Rightarrow> (Inr [], s)
                | HD_homes homes \<Rightarrow> (Inr homes, s)))"

definition getHomeData ::
  "jsval \<Rightarrow> homesdata_json fetched \<Rightarrow> netatmo \<Rightarrow> (js_error + home list) \<times> netatmo" where
  "getHomeData homeId reply s =
     (case getHomeData_begin homeId s of
        (Some e, s1) \<Rightarrow> (Inl e, s1)
      | (None, s1) \<Rightarrow> getHomeData_resume reply s1)"

definition getHomeStatus_begin :: "jsval \<Rightarrow> netatmo \<Rightarrow> js_error option \<times> netatmo" where
  "getHomeStatus_begin homeId s =
     (if token (config s) = [] then (Some (Error ''No token found''), s)
      else (None,
        fetch \<lparr>url = ''https://api.netatmo.com/api/homestatus'',
               body = form [(''home_id'', homeId)],
               authorization = bearer s\<rparr> s))"

definition getHomeStatus_resume ::
  "homestatus_json fetched \<Rightarrow> netatmo \<Rightarrow> (js_error + home_status option returned) \<times> netatmo" where
  "getHomeStatus_resume reply s =
     (case reply of
        Rejected \<Rightarrow> (Inl FetchError, s)
      | Response status json \<Rightarrow>
          if \<not> ok status \<or> status \<noteq> 200
          then (if status = 403 then (Inl (Error ''Unauthorized''), forbidden s)
                else (Inr EmptyArray, s))
          else (case json of
                  HS_invalid \<Rightarrow> (Inl JsonError, s)
                | HS_no_body \<Rightarrow> (Inl TypeError, s)
                | HS_no_home \<Rightarrow> (Inr (Payload None), s)
                | HS_home h \<Rightarrow> (Inr (Payload (Some h)), s)))"

definition getHomeStatus ::
  "jsval \<Rightarrow> homestatus_json fetched \<Rightarrow> netatmo \<Rightarrow>
   (js_error + home_status option returned) \<times> netatmo" where
  "getHomeStatus homeId reply s =
     (case getHomeStatus_begin homeId s of
        (Some e, s1) \<Rightarrow> (Inl e, s1)
      | (None, s1) \<Rightarrow> getHomeStatus_resume reply s1)"

text \<open>
  The argument object of \<open>setRoomThermPoint\<close> and of \<open>setThermostatMode\<close>. After
  the \<open>await fetch\<close> the two functions have the same text (but for the label they
  log): \<open>set_resume\<close>.
\<close>

record therm_point =
  tp_homeId :: jsval
  tp_roomId :: jsval
  tp_mode :: jsval
  tp_temp :: jsval

record therm_mode =
  tm_homeId :: jsval
  tm_mode :: jsval

definition set_resume ::
  "'b set_json fetched \<Rightarrow> netatmo \<Rightarrow> (js_error + 'b returned) \<times> netatmo" where
  "set_resume reply s =
     (case reply of
        Rejected \<Rightarrow> (Inl FetchError, s)
      | Response status json \<Rightarrow>
          if \<not> ok status \<or> status \<noteq> 200
          then (if status = 403 then (Inl (Error ''Unauthorized''), forbidden s)
                else (Inr EmptyArray, s))
          else (case json of
                  SJ_invalid \<Rightarrow> (Inl JsonError, s)
                | SJ_null \<Rightarrow> (Inl TypeError, s)
                | SJ_body b \<Rightarrow> (Inr (Payload b), s)))"

definition setRoomThermPoint_begin :: "therm_point \<Rightarrow> netatmo \<Rightarrow> js_error option \<times> netatmo" where
  "setRoomThermPoint_begin a s =
     (if token (config s) = [] then (Some (Error ''No token found''), s)
      else (None,
        fetch \<lparr>url = ''https://api.netatmo.com/api/setroomthermpoint'',
               body = form [(''home_id'', tp_homeId a), (''room_id'', tp_roomId a),
                            (''mode'', tp_mode a), (''temp'', tp_temp a)],
               authorization = bearer s\<rparr> s))"

definition setRoomThermPoint ::
  "therm_point \<Rightarrow> 'b set_json fetched \<Rightarrow> netatmo \<Rightarrow> (js_error + 'b returned) \<times> netatmo" where
  "setRoomThermPoint a reply s =
     (case setRoomThermPoint_begin a s of
        (Some e, s1) \<Rightarrow> (Inl e, s1)
      | (None, s1) \<Rightarrow> set_resume reply s1)"

definition setThermostatMode_begin :: "therm_mode \<Rightarrow> netatmo \<Rightarrow> js_error option \<times> netatmo" where
  "setThermostatMode_begin a s =
     (if token (config s) = [] then (Some (Error ''No token found''), s)
      else (None,
        fetch \<lparr>url = ''https://api.netatmo.com/api/setthermmode'',
               body = form [(''home_id'', tm_homeId a), (''mode'', tm_mode a)],
               authorization = bearer s\<rparr> s))"

definition setThermostatMode ::
  "therm_mode \<Rightarrow> 'b set_json fetched \<Rightarrow> netatmo \<Rightarrow> (js_error + 'b returned) \<times> netatmo" where
  "setThermostatMode a reply s =
     (case setThermostatMode_begin a s of
        (Some e, s1) \<Rightarrow> (Inl e, s1)
      | (None, s1) \<Rightarrow> set_resume reply s1)"

subsection \<open>What happens to a client, one event after the other\<close>

text \<open>
  The object is single-threaded: between two of its suspension points exactly one of
  the following runs. A refresh starts (a timer fires, or \<open>refresh()\<close> is called); the
  token endpoint answers a refresh or an authorization exchange; an operation is called;
  the answer to a request of an operation sent earlier arrives; the authorization flow is
  resumed with a callback; \<open>unInit\<close> is called. \<open>stores_token\<close> marks the two
  events that store tokens: a 200 answer, with a body that parses, to a refresh or to an
  authorization exchange.
\<close>

datatype 'b event =
    Timer_fires nat
  | Refresh_starts
  | Refresh_answered "token_data option fetched" int int
  | Exchange_answered "token_data option fetched" int int
  | Callback_resumes "string list" string string callback
  | Homes_called jsval
  | Homes_answered "homesdata_json fetched"
  | Status_called jsval
  | Status_answered "homestatus_json fetched"
  | ThermPoint_called therm_point
  | ThermMode_called therm_mode
  | Set_answered "'b set_json fetched"
  | UnInit_called

fun step :: "'b event \<Rightarrow> netatmo \<Rightarrow> netatmo" where
  "step (Timer_fires h) s = snd (timer_fires h s)"
| "step Refresh_starts s = snd (refresh_begin s)"
| "step (Refresh_answered reply now now') s = snd (refresh_resume reply now now' s)"
| "step (Exchange_answered reply now now') s = snd (authenticate_exchange reply now now' s)"
| "step (Callback_resumes scopes redirectUri state data) s =
     snd (authenticate_check scopes redirectUri state data s)"
| "step (Homes_called homeId) s = snd (getHomeData_begin homeId s)"
| "step (Homes_answered reply) s = snd (getHomeData_resume reply s)"
| "step (Status_called homeId) s = snd (getHomeStatus_begin homeId s)"
| "step (Status_answered reply) s = snd (getHomeStatus_resume reply s)"
| "step (ThermPoint_called a) s = snd (setRoomThermPoint_begin a s)"
| "step (ThermMode_called a) s = snd (setThermostatMode_begin a s)"
| "step (Set_answered reply) s = snd (set_resume reply s :: (js_error + 'b returned) \<times> netatmo)"
| "step UnInit_called s = unInit s"

fun stores_token :: "'b event \<Rightarrow> bool" where
  "stores_token (Refresh_answered (Response status (Some data)) now now') = (status = 200)"
| "stores_token (Exchange_answered (Response status (Some data)) now now') = (status = 200)"
| "stores_token ev = False"

definition run :: "'b event list \<Rightarrow> netatmo \<Rightarrow> netatmo" where
  "run evs s = fold step evs s"

section \<open>Devices and their properties (adapter.js)\<close>

text \<open>
  \<open>a != b\<close> is the negation of JavaScript's loose equality. On the values of
  \<open>jsval\<close>: \<open>undefined\<close> and \<open>null\<close> equal each other and nothing else, \<open>NaN\<close>
  equals nothing (itself included), two numbers or two strings are compared as such, and
  a number equals a string when the string converts to that number. The conversion
  (\<open>StringToNumber\<close> of the language) is a parameter \<open>toNumber\<close>, \<open>None\<close> where the
  string converts to \<open>NaN\<close> or to an infinity.
\<close>

fun loose_eq :: "(string \<Rightarrow> rat option) \<Rightarrow> jsval \<Rightarrow> jsval \<Rightarrow> bool" where
  "loose_eq toNumber Undefined b = (b = Undefined \<or> b = Null)"
| "loose_eq toNumber Null b = (b = Undefined \<or> b = Null)"
| "loose_eq toNumber NaN b = False"
| "loose_eq toNumber (Num x) b =
     (case b of Num y \<Rightarrow> x = y | Str t \<Rightarrow> toNumber t = Some x | _ \<Rightarrow> False)"
| "loose_eq toNumber (Str t) b =
     (case b of Str u \<Rightarrow> t = u | Num y \<Rightarrow> toNumber t = Some y | _ \<Rightarrow> False)"

text \<open>
  A \<open>RoomDevice\<close>: its id, the cached value of each of its properties
  (\<open>property.value\<close>, by property name) and the change notifications it has sent
  (\<open>notifyPropertyChanged\<close>: property name and the value notified), oldest first.
  \<open>Device\<close> and \<open>Property\<close> belong to the gateway's library: \<open>findProperty\<close>
  looks the name up, \<open>setCachedValue\<close> stores the value (no property of this adapter
  has the type boolean, the one type it converts) and \<open>notifyPropertyChanged\<close> sends
  one notification.
\<close>

record device =
  dev_id :: string
  properties :: "string \<rightharpoonup> jsval"
  notifications :: "(string \<times> jsval) list"

text \<open>
  \<open>updateProperty(propertyName, value)\<close>. When the device has no property of that
  name, \<open>findProperty\<close> gives \<open>undefined\<close> and reading \<open>.value\<close> throws.
\<close>

definition updateProperty ::
  "(string \<Rightarrow> rat option) \<Rightarrow> string \<Rightarrow> jsval \<Rightarrow> device \<Rightarrow> js_error + device" where
  "updateProperty toNumber propertyName v d =
     (case properties d propertyName of
        None \<Rightarrow> Inl TypeError
      | Some cached \<Rightarrow>
          if \<not> loose_eq toNumber cached v
          then Inr (d\<lparr>properties := (properties d)(propertyName \<mapsto> v),
                      notifications := notifications d @ [(propertyName, v)]\<rparr>)
          else Inr d)"

text \<open>
  The three property classes: each constructor caches \<open>propertyDescription.value\<close>
  (undefined in every description of this adapter) and notifies. The \<open>RoomDevice\<close>
  constructor first builds a \<open>ThermostatProperty\<close> for every name, and a second
  property when the description's \<open>@type\<close> is one of the two writable ones.
\<close>

definition new_Property :: "string \<Rightarrow> device \<Rightarrow> device" where
  "new_Property name d = d\<lparr>notifications := notifications d @ [(name, Undefined)]\<rparr>"

definition add_property :: "string \<times> string \<Rightarrow> device \<Rightarrow> device" where
  "add_property p d =
     (let d1 = new_Property (fst p) d;
          d2 = (if snd p = ''TargetTemperatureProperty'' then new_Property (fst p) d1
                else if snd p = ''ThermostatModeProperty'' then new_Property (fst p) d1
                else d1)
      in d2\<lparr>properties := (properties d2)(fst p \<mapsto> Undefined)\<rparr>)"

definition new_RoomDevice :: "string \<Rightarrow> (string \<times> string) list \<Rightarrow> device" where
  "new_RoomDevice device_id descriptions =
     fold add_property descriptions
       \<lparr>dev_id = device_id, properties = Map.empty, notifications = []\<rparr>"

definition room_properties :: "(string \<times> string) list" where
  "room_properties =
     [(''temperature'', ''TemperatureProperty''),
      (''targetTemperature'', ''TargetTemperatureProperty''),
      (''heating'', ''HeatingCoolingProperty''),
      (''mode'', ''ThermostatModeProperty'')]"



section \<open>The adapter: discovery, polling and commands (adapter.js)\<close>

text \<open>
  The adapter: its cloud client, \<open>this.devices\<close> (by home id, hyphen, room id),
  \<open>this.moduleMapping\<close>, and the rejections of promises that nothing awaits or
  catches, oldest first.
\<close>

record adapter =
  netatmo :: netatmo
  devices :: "string \<rightharpoonup> device"
  moduleMapping :: "string \<rightharpoonup> string"
  unhandled :: "js_error list"



subsection \<open>Discovery\<close>

definition create_room :: "home \<Rightarrow> room \<Rightarrow> adapter \<Rightarrow> adapter" where
  "create_room h r a =
     (let k = device_key (home_id h) (room_id r)
      in a\<lparr>devices := (devices a)(k \<mapsto> new_RoomDevice (DEVICE_PREFIX @ k) room_properties)\<rparr>)"




subsection \<open>Polling\<close>






definition reject :: "js_error option \<times> adapter \<Rightarrow> adapter" where
  "reject r = (case r of (None, a) \<Rightarrow> a | (Some e, a) \<Rightarrow> a\<lparr>unhandled := unhandled a @ [e]\<rparr>)"





subsection \<open>Commands\<close>

text \<open>
  \<open>const [home_id, room_id] = this.getIds()\<close>: an element the array does not have is
  \<open>undefined\<close>.
\<close>

definition element :: "string list \<Rightarrow> nat \<Rightarrow> jsval" where
  "element ids i = (if i < length ids then Str (ids ! i) else Undefined)"

text \<open>
  \<open>RoomDevice.setRoomThermPoint(temp)\<close> with \<open>NetatmoEnergyAdapter.setRoomThermPoint\<close>,
  and \<open>RoomDevice.setThermostatMode(value)\<close> with
  \<open>NetatmoEnergyAdapter.setThermostatMode\<close>: the argument object handed to the cloud
  client, and the call.
\<close>

definition room_therm_point :: "string \<Rightarrow> jsval \<Rightarrow> therm_point" where
  "room_therm_point device_id temp =
     (let ids = getIds device_id
      in \<lparr>tp_homeId = element ids 0, tp_roomId = element ids 1,
          tp_mode = Str ''manual'', tp_temp = temp\<rparr>)"

definition room_therm_mode :: "string \<Rightarrow> jsval \<Rightarrow> therm_mode" where
  "room_therm_mode device_id v =
     (let ids = getIds device_id
      in \<lparr>tm_homeId = element ids 0,
          tm_mode = (if v = Str ''off'' then Str ''away'' else Str ''schedule'')\<rparr>)"

definition RoomDevice_setRoomThermPoint ::
  "device \<Rightarrow> jsval \<Rightarrow> 'b set_json fetched \<Rightarrow> netatmo \<Rightarrow> (js_error + 'b returned) \<times> netatmo" where
  "RoomDevice_setRoomThermPoint d temp reply s =
     setRoomThermPoint (room_therm_point (dev_id d) temp) reply s"

definition RoomDevice_setThermostatMode ::
  "device \<Rightarrow> jsval \<Rightarrow> 'b set_json fetched \<Rightarrow> netatmo \<Rightarrow> (js_error + 'b returned) \<times> netatmo" where
  "RoomDevice_setThermostatMode d v reply s =
     setThermostatMode (room_therm_mode (dev_id d) v) reply s"

text \<open>
  \<open>NetatmoEnergyAdapter.init\<close>, up to the call of \<open>postAuth\<close>: the cloud client is
  built and the two tables are empty.
\<close>

definition new_Adapter :: "netatmo_config \<Rightarrow> int \<Rightarrow> adapter" where
  "new_Adapter cfg now =
     \<lparr>netatmo = new_Netatmo cfg now, devices = Map.empty, moduleMapping = Map.empty,
      unhandled = []\<rparr>"

section \<open>Auxiliary definitions of the proofs\<close>

text \<open>The curve \<open>interpolateBattery\<close> floors, for the type \<open>NRV\<close>, written out.\<close>

definition battery_curve :: "rat \<Rightarrow> rat" where
  "battery_curve v =
     (if v \<ge> 3200 then 100
      else if v \<ge> 2700 then 80 + 20 * (v - 2700) / 500
      else if v \<ge> 2400 then 50 + 30 * (v - 2400) / 300
      else if v \<ge> 2200 then 20 + 30 * (v - 2200) / 200
      else 0)"

text \<open>Concrete values for the examples: a configuration, a home with one room.\<close>

definition cfg0 :: netatmo_config where
  "cfg0 = \<lparr>token = ''tok'', expires = Some 1000, refresh_token = ''ref'',
           client_id = ''id'', client_secret = ''secret''\<rparr>"

definition room0 :: room where
  "room0 = \<lparr>room_id = ''r7'', room_name = ''Bath''\<rparr>"

definition home0 :: home where
  "home0 = \<lparr>home_id = ''h1'', home_name = ''Home'', home_rooms = [room0], home_modules = []\<rparr>"

definition data0 :: token_data where
  "data0 = \<lparr>access_token = ''tok2'', expires_in = Some 3600, refresh_token = ''ref2''\<rparr>"

text \<open>A client that holds a token and no refresh token: its constructor arms nothing.\<close>

definition idle0 :: netatmo where
  "idle0 = new_Netatmo (cfg0\<lparr>refresh_token := []\<rparr>) 0"

text \<open>
  A client built with a valid token sends the status requests of two homes; both are
  answered 403, and each answer starts a refresh: two token requests are in flight.
\<close>

definition overlap0 :: netatmo where
  "overlap0 =
     snd (getHomeStatus_resume (Response 403 HS_invalid)
       (snd (getHomeStatus_resume (Response 403 HS_invalid)
         (snd (getHomeStatus_begin (Str ''h2'')
           (snd (getHomeStatus_begin (Str ''h1'') (new_Netatmo cfg0 0))))))))"

text \<open>The device of the room \<open>r7\<close> of the home \<open>h1\<close>, as discovery builds it.\<close>

definition device0 :: device where
  "device0 = new_RoomDevice (room_device_id ''h1'' ''r7'') room_properties"

text \<open>Two callback payloads: a denial without a code, and a grant.\<close>

definition denied0 :: callback where
  "denied0 = \<lparr>cb_state = Some ''5f3a'', cb_code = None, cb_error = Some ''access_denied''\<rparr>"

definition granted0 :: callback where
  "granted0 = \<lparr>cb_state = Some ''5f3a'', cb_code = Some ''c0de'', cb_error = None\<rparr>"





text \<open>The adapter with another cloud client state and another list of rejections.\<close>

definition env :: "netatmo \<Rightarrow> js_error list \<Rightarrow> adapter \<Rightarrow> adapter" where
  "env n u a = a\<lparr>netatmo := n, unhandled := u\<rparr>"

section \<open>Interpolation: battery and signal\<close>

lemma interpolateBattery_curve: "interpolateBattery v ''NRV'' = Inr \<lfloor>battery_curve v\<rfloor>"
  by (simp add: interpolateBattery_def LEVELS_def object_values_def steps_def battery_curve_def)

lemma battery_curve_mono: "v \<le> w \<Longrightarrow> battery_curve v \<le> battery_curve w"
  by (auto simp add: battery_curve_def diff_divide_distrib)

lemma battery_curve_range: "0 \<le> battery_curve v \<and> battery_curve v \<le> 100"
  by (auto simp add: battery_curve_def diff_divide_distrib)

text \<open>
  C7. For every voltage \<open>v\<close>, \<open>interpolateBattery(v, "NRV")\<close> returns an integer
  between 0 and 100 and is monotonically non-decreasing in \<open>v\<close>; it is 100 at 3200, 0 at
  2100, 50 at 2400, and at 2550 it is the floor of the linear interpolation between 50
  and 80, which is 65.
\<close>

theorem interpolateBattery_NRV:
  "(\<exists>p. interpolateBattery v ''NRV'' = Inr p \<and> 0 \<le> p \<and> p \<le> 100)
   \<and> (v \<le> w \<longrightarrow>
        (\<exists>p q. interpolateBattery v ''NRV'' = Inr p \<and> interpolateBattery w ''NRV'' = Inr q \<and> p \<le> q))
   \<and> interpolateBattery 3200 ''NRV'' = Inr 100
   \<and> interpolateBattery 2100 ''NRV'' = Inr 0
   \<and> interpolateBattery 2400 ''NRV'' = Inr 50
   \<and> interpolateBattery 2550 ''NRV'' = Inr \<lfloor>50 + (80 - 50) * (2550 - 2400) / (2700 - 2400)\<rfloor>
   \<and> interpolateBattery 2550 ''NRV'' = Inr 65"
proof -
  have r: "0 \<le> \<lfloor>battery_curve v\<rfloor> \<and> \<lfloor>battery_curve v\<rfloor> \<le> 100"
    using battery_curve_range [of v] by (simp add: floor_le_iff le_floor_iff)
  have m: "v \<le> w \<longrightarrow> \<lfloor>battery_curve v\<rfloor> \<le> \<lfloor>battery_curve w\<rfloor>"
    by (simp add: battery_curve_mono floor_mono)
  have c: "\<lfloor>battery_curve 3200\<rfloor> = 100" "\<lfloor>battery_curve 2100\<rfloor> = 0"
    "\<lfloor>battery_curve 2400\<rfloor> = 50" "\<lfloor>battery_curve 2550\<rfloor> = 65"
    by (simp_all add: battery_curve_def)
  have e: "\<lfloor>50 + (80 - 50) * (2550 - 2400) / (2700 - 2400 :: rat)\<rfloor> = 65"
    by simp
  show ?thesis
    using r m c e by (simp add: interpolateBattery_curve)
qed

theorem interpolateBattery_NRV_witness:
  "(2300::rat) \<le> 2500 \<and> interpolateBattery 2300 ''NRV'' = Inr 35
   \<and> interpolateBattery 2500 ''NRV'' = Inr 60"
  using interpolateBattery_NRV [of 2300 2500]
  by (simp add: interpolateBattery_def LEVELS_def object_values_def steps_def)

text \<open>
  C8. For every raw signal value \<open>s\<close>, \<open>mapRfToPercent(s)\<close> is
  \<open>((90 - s) / 30) * 90 + 10\<close> clamped into the range from 0 to 100; it is 10 at 90 and
  0 at 100; values of 60 or less (far better than 90) give 100 and values of \<open>280/3\<close>
  or more (far worse) give 0.
\<close>

theorem mapRfToPercent_clamped:
  "mapRfToPercent s = max (min (((90 - s) / 30) * 90 + 10) 100) 0
   \<and> 0 \<le> mapRfToPercent s \<and> mapRfToPercent s \<le> 100
   \<and> mapRfToPercent 90 = 10 \<and> mapRfToPercent 100 = 0
   \<and> (s \<le> 60 \<longrightarrow> mapRfToPercent s = 100)
   \<and> (280 / 3 \<le> s \<longrightarrow> mapRfToPercent s = 0)"
  by (auto simp add: mapRfToPercent_def mapSignalToPercent_def clamp_def max_def min_def
        diff_divide_distrib)

theorem mapRfToPercent_clamped_witness:
  "(20::rat) \<le> 60 \<and> mapRfToPercent 20 = 100 \<and> (280::rat) / 3 \<le> 120 \<and> mapRfToPercent 120 = 0
   \<and> mapRfToPercent 80 = 40"
  using mapRfToPercent_clamped [of 20] mapRfToPercent_clamped [of 120]
    mapRfToPercent_clamped [of 80]
  by simp

section \<open>Device ids\<close>

lemma js_replace_at_start: "prefix p x \<Longrightarrow> js_replace x p [] = drop (length p) x"
  by (cases x) auto

lemma js_replace_prefix: "js_replace (p @ s) p [] = s"
  by (simp add: js_replace_at_start)

lemma js_split_no_sep: "c \<notin> set s \<Longrightarrow> js_split s c = [s]"
  by (induction s) auto

lemma js_split_append: "c \<notin> set h \<Longrightarrow> js_split (h @ c # r) c = h # js_split r c"
  by (induction h) auto

lemma getIds_room_device_id:
  "CHR ''-'' \<notin> set h \<Longrightarrow> CHR ''-'' \<notin> set r \<Longrightarrow> getIds (room_device_id h r) = [h, r]"
  by (simp add: getIds_def room_device_id_def device_key_def js_replace_prefix
        js_split_append js_split_no_sep)

lemma dev_id_add_property: "dev_id (add_property p d) = dev_id d"
  by (simp add: add_property_def new_Property_def Let_def)

lemma dev_id_fold_add_property: "dev_id (fold add_property ps d) = dev_id d"
  by (induction ps arbitrary: d) (simp_all add: dev_id_add_property)

lemma dev_id_new_RoomDevice: "dev_id (new_RoomDevice i ps) = i"
  by (simp add: new_RoomDevice_def dev_id_fold_add_property)

text \<open>
  C9. For a home and a room whose ids contain no hyphen, the device \<open>createDevices\<close>
  builds for the room has the id \<open>thermostat-room-\<close>, home id, hyphen, room id;
  \<open>getIds()\<close> on it returns exactly the pair of the home id and the room id, so
  \<open>setRoomThermPoint\<close> hands the cloud client that home and that room, and
  \<open>setThermostatMode\<close> that home. With a hyphen inside an id the round trip is lost:
  for the home \<open>a-b\<close> and the room \<open>c\<close>, \<open>getIds()\<close> returns three parts.
\<close>

theorem getIds_roundtrip:
  assumes "CHR ''-'' \<notin> set (home_id h)" and "CHR ''-'' \<notin> set (room_id r)"
  shows "(\<exists>d. devices (create_room h r a) (device_key (home_id h) (room_id r)) = Some d
            \<and> dev_id d = ''thermostat-room-'' @ home_id h @ ''-'' @ room_id r
            \<and> getIds (dev_id d) = [home_id h, room_id r]
            \<and> room_therm_point (dev_id d) temp =
                \<lparr>tp_homeId = Str (home_id h), tp_roomId = Str (room_id r),
                 tp_mode = Str ''manual'', tp_temp = temp\<rparr>
            \<and> tm_homeId (room_therm_mode (dev_id d) v) = Str (home_id h))
         \<and> getIds (room_device_id ''a-b'' ''c'') = [''a'', ''b'', ''c'']"
proof -
  let ?i = "room_device_id (home_id h) (room_id r)"
  have g: "getIds ?i = [home_id h, room_id r]"
    using assms by (rule getIds_room_device_id)
  have i: "?i = ''thermostat-room-'' @ home_id h @ ''-'' @ room_id r"
    by (simp add: room_device_id_def device_key_def DEVICE_PREFIX_def)
  have d: "devices (create_room h r a) (device_key (home_id h) (room_id r))
             = Some (new_RoomDevice ?i room_properties)"
    by (simp add: create_room_def Let_def room_device_id_def)
  have x: "getIds (room_device_id ''a-b'' ''c'') = [''a'', ''b'', ''c'']"
    by (simp add: getIds_def room_device_id_def device_key_def DEVICE_PREFIX_def)
  show ?thesis
    using g i d x
    by (simp add: dev_id_new_RoomDevice room_therm_point_def room_therm_mode_def
          element_def Let_def)
qed

theorem getIds_roundtrip_witness:
  "CHR ''-'' \<notin> set (home_id home0) \<and> CHR ''-'' \<notin> set (room_id room0)
   \<and> getIds ''thermostat-room-h1-r7'' = [''h1'', ''r7'']
   \<and> room_therm_point ''thermostat-room-h1-r7'' (Num 21) =
       \<lparr>tp_homeId = Str ''h1'', tp_roomId = Str ''r7'', tp_mode = Str ''manual'',
        tp_temp = Num 21\<rparr>"
  using getIds_roundtrip [of home0 room0 "new_Adapter cfg0 0" "Num 21" Undefined]
  by (auto simp add: home0_def room0_def)

section \<open>The token store and the refresh scheduler\<close>

lemmas netatmo_defs = refresh_def refresh_begin_def refresh_resume_def initRefresh_def
  store_tokens_def updateConfig_def fetch_def set_token_def setTimeout_def needsAuth_def ok_def
  date_valid_def

lemmas op_defs = getHomeData_def getHomeData_begin_def getHomeData_resume_def
  getHomeStatus_def getHomeStatus_begin_def getHomeStatus_resume_def
  setRoomThermPoint_def setRoomThermPoint_begin_def setThermostatMode_def
  setThermostatMode_begin_def set_resume_def

lemma idle0_eq:
  "idle0 = \<lparr>config = cfg0\<lparr>refresh_token := []\<rparr>, refreshInterval = None, timers = [],
            timer_count = 0, fetched = [], saved = []\<rparr>"
  by (simp add: idle0_def new_Netatmo_def cfg0_def)




text \<open>
  C5, as the code has it. \<open>initRefresh\<close> takes the delay as the expiry minus now (zero
  when no expiry is stored). When the delay is positive and an access token is present
  it schedules one more one-shot timer for the delay and keeps its handle; every timer
  that was pending stays pending, nothing is cancelled. Otherwise it calls \<open>refresh\<close>
  at once, which clears the access token and drops the handle.
\<close>

theorem initRefresh_arm:
  "(let delay = (case expires (config s) of None \<Rightarrow> now | Some e \<Rightarrow> if e = 0 then now else e) - now;
        s' = initRefresh now s in
     (delay > 0 \<and> token (config s) \<noteq> [] \<longrightarrow>
        timers s' = timers s @ [(timer_count s, delay)]
        \<and> refreshInterval s' = Some (timer_count s)
        \<and> timer_count s' = Suc (timer_count s)
        \<and> config s' = config s \<and> fetched s' = fetched s \<and> saved s' = saved s)
     \<and> (\<not> (delay > 0 \<and> token (config s) \<noteq> []) \<longrightarrow>
        s' = snd (refresh_begin s) \<and> timers s' = timers s \<and> token (config s') = []
        \<and> refreshInterval s' = None))"
  by (simp add: initRefresh_def setTimeout_def refresh_begin_def set_token_def fetch_def Let_def
        split: option.splits)

theorem initRefresh_arm_witness:
  "(0::int) < 1000 - 0 \<and> token (config idle0) \<noteq> []
   \<and> timers (initRefresh 0 idle0) = [(0, 1000)]
   \<and> refreshInterval (initRefresh 0 idle0) = Some 0
   \<and> \<not> ((0::int) < 1000 - 2000)
   \<and> token (config (initRefresh 2000 idle0)) = []
   \<and> timers (initRefresh 2000 idle0) = []"
  using initRefresh_arm [where s = idle0 and now = 0] initRefresh_arm [where s = idle0 and now = 2000]
  by (simp add: Let_def idle0_eq cfg0_def refresh_begin_def set_token_def)

text \<open>
  The claim C5 as the spec words it fails: no timer is cancelled. The client is built
  with a valid token (one timer pending); a status request is answered 403, which starts
  a refresh; the refresh succeeds and arms a second timer while the first is still
  pending. When the first then fires, it empties the token that was just obtained.
  Calling \<open>initRefresh\<close> twice leaves two timers pending as well.
\<close>

theorem initRefresh_two_timers_counterexample:
  "timers (new_Netatmo cfg0 0) = [(0, 1000)]
   \<and> timers (snd (refresh_resume (Response 200 (Some data0)) 10 11
        (snd (getHomeStatus (Str ''h1'') (Response 403 HS_invalid) (new_Netatmo cfg0 0)))))
      = [(0, 1000), (1, 3599999)]
   \<and> token (config (snd (refresh_resume (Response 200 (Some data0)) 10 11
        (snd (getHomeStatus (Str ''h1'') (Response 403 HS_invalid) (new_Netatmo cfg0 0))))))
      = ''tok2''
   \<and> token (config (snd (timer_fires 0 (snd (refresh_resume (Response 200 (Some data0)) 10 11
        (snd (getHomeStatus (Str ''h1'') (Response 403 HS_invalid) (new_Netatmo cfg0 0))))))))
      = []
   \<and> timers (initRefresh 0 (new_Netatmo cfg0 0)) = [(0, 1000), (1, 1000)]"
  by (simp add: op_defs netatmo_defs forbidden_def new_Netatmo_def cfg0_def data0_def Let_def
        timer_fires_def)

section \<open>The cloud client\<close>

lemma token_forbidden: "token (config (forbidden s)) = []"
  by (simp add: forbidden_def refresh_begin_def set_token_def fetch_def Let_def)

lemma config_fetch: "config (fetch r s) = config s"
  by (simp add: fetch_def)

lemma no_token_ops:
  assumes "token (config s) = []"
  shows "getHomeData h r1 s = (Inl (Error ''No token found''), s)"
    and "getHomeStatus h r2 s = (Inl (Error ''No token found''), s)"
    and "setRoomThermPoint p r3 s = (Inl (Error ''No token found''), s)"
    and "setThermostatMode m r4 s = (Inl (Error ''No token found''), s)"
  using assms
  by (simp_all add: getHomeData_def getHomeData_begin_def getHomeStatus_def
      getHomeStatus_begin_def setRoomThermPoint_def setRoomThermPoint_begin_def
      setThermostatMode_def setThermostatMode_begin_def)

lemma getHomeData_cases:
  assumes "token (config s) \<noteq> []"
  shows "fst (getHomeData h (Response 403 j) s) = Inl (Error ''Unauthorized'')"
    and "token (config (snd (getHomeData h (Response 403 j) s))) = []"
    and "status \<noteq> 200 \<Longrightarrow> status \<noteq> 403 \<Longrightarrow> fst (getHomeData h (Response status j) s) = Inr []"
    and "status \<noteq> 200 \<Longrightarrow> status \<noteq> 403 \<Longrightarrow>
           config (snd (getHomeData h (Response status j) s)) = config s"
    and "fst (getHomeData h (Response 200 (HD_homes homes)) s) = Inr homes"
  using assms by (simp_all add: op_defs ok_def token_forbidden config_fetch)

lemma getHomeStatus_cases:
  assumes "token (config s) \<noteq> []"
  shows "fst (getHomeStatus h (Response 403 j) s) = Inl (Error ''Unauthorized'')"
    and "token (config (snd (getHomeStatus h (Response 403 j) s))) = []"
    and "status \<noteq> 200 \<Longrightarrow> status \<noteq> 403 \<Longrightarrow>
           fst (getHomeStatus h (Response status j) s) = Inr EmptyArray"
    and "status \<noteq> 200 \<Longrightarrow> status \<noteq> 403 \<Longrightarrow>
           config (snd (getHomeStatus h (Response status j) s)) = config s"
    and "fst (getHomeStatus h (Response 200 (HS_home st)) s) = Inr (Payload (Some st))"
  using assms by (simp_all add: op_defs ok_def token_forbidden config_fetch)

lemma setRoomThermPoint_cases:
  assumes "token (config s) \<noteq> []"
  shows "fst (setRoomThermPoint p (Response 403 j) s) = Inl (Error ''Unauthorized'')"
    and "token (config (snd (setRoomThermPoint p (Response 403 j) s))) = []"
    and "status \<noteq> 200 \<Longrightarrow> status \<noteq> 403 \<Longrightarrow>
           fst (setRoomThermPoint p (Response status j) s) = Inr EmptyArray"
    and "status \<noteq> 200 \<Longrightarrow> status \<noteq> 403 \<Longrightarrow>
           config (snd (setRoomThermPoint p (Response status j) s)) = config s"
    and "fst (setRoomThermPoint p (Response 200 (SJ_body b)) s) = Inr (Payload b)"
  using assms by (simp_all add: op_defs ok_def token_forbidden config_fetch)

lemma setThermostatMode_cases:
  assumes "token (config s) \<noteq> []"
  shows "fst (setThermostatMode p (Response 403 j) s) = Inl (Error ''Unauthorized'')"
    and "token (config (snd (setThermostatMode p (Response 403 j) s))) = []"
    and "status \<noteq> 200 \<Longrightarrow> status \<noteq> 403 \<Longrightarrow>
           fst (setThermostatMode p (Response status j) s) = Inr EmptyArray"
    and "status \<noteq> 200 \<Longrightarrow> status \<noteq> 403 \<Longrightarrow>
           config (snd (setThermostatMode p (Response status j) s)) = config s"
    and "fst (setThermostatMode p (Response 200 (SJ_body b)) s) = Inr (Payload b)"
  using assms by (simp_all add: op_defs ok_def token_forbidden config_fetch)

text \<open>
  C1, as the code has it. For each of the four operations: with no access token stored
  the call fails with the error \<open>No token found\<close> and the state is untouched (no
  request is sent); on a 403 the stored access token is cleared and the call fails with
  the error \<open>Unauthorized\<close>; on any other status that is not 200 the call returns the
  empty array and raises nothing, the token store untouched; on a 200 the payload of the
  body is returned.
\<close>

theorem cloud_client_envelope:
  "(token (config s) = [] \<longrightarrow>
      getHomeData h r1 s = (Inl (Error ''No token found''), s)
      \<and> getHomeStatus h r2 s = (Inl (Error ''No token found''), s)
      \<and> setRoomThermPoint p (r3 :: 'b set_json fetched) s = (Inl (Error ''No token found''), s)
      \<and> setThermostatMode m (r4 :: 'b set_json fetched) s = (Inl (Error ''No token found''), s))
   \<and> (token (config s) \<noteq> [] \<longrightarrow>
      fst (getHomeData h (Response 403 j1) s) = Inl (Error ''Unauthorized'')
      \<and> token (config (snd (getHomeData h (Response 403 j1) s))) = []
      \<and> fst (getHomeStatus h (Response 403 j2) s) = Inl (Error ''Unauthorized'')
      \<and> token (config (snd (getHomeStatus h (Response 403 j2) s))) = []
      \<and> fst (setRoomThermPoint p (Response 403 (j3 :: 'b set_json)) s) = Inl (Error ''Unauthorized'')
      \<and> token (config (snd (setRoomThermPoint p (Response 403 j3) s))) = []
      \<and> fst (setThermostatMode m (Response 403 (j4 :: 'b set_json)) s) = Inl (Error ''Unauthorized'')
      \<and> token (config (snd (setThermostatMode m (Response 403 j4) s))) = [])
   \<and> (token (config s) \<noteq> [] \<and> status \<noteq> 200 \<and> status \<noteq> 403 \<longrightarrow>
      fst (getHomeData h (Response status j1) s) = Inr []
      \<and> config (snd (getHomeData h (Response status j1) s)) = config s
      \<and> fst (getHomeStatus h (Response status j2) s) = Inr EmptyArray
      \<and> config (snd (getHomeStatus h (Response status j2) s)) = config s
      \<and> fst (setRoomThermPoint p (Response status j3) s) = Inr EmptyArray
      \<and> config (snd (setRoomThermPoint p (Response status j3) s)) = config s
      \<and> fst (setThermostatMode m (Response status j4) s) = Inr EmptyArray
      \<and> config (snd (setThermostatMode m (Response status j4) s)) = config s)
   \<and> (token (config s) \<noteq> [] \<longrightarrow>
      fst (getHomeData h (Response 200 (HD_homes homes)) s) = Inr homes
      \<and> fst (getHomeStatus h (Response 200 (HS_home st)) s) = Inr (Payload (Some st))
      \<and> fst (setRoomThermPoint p (Response 200 (SJ_body (b3 :: 'b))) s) = Inr (Payload b3)
      \<and> fst (setThermostatMode m (Response 200 (SJ_body (b4 :: 'b))) s) = Inr (Payload b4))"
  by (simp add: no_token_ops getHomeData_cases getHomeStatus_cases setRoomThermPoint_cases
        setThermostatMode_cases)

theorem cloud_client_envelope_witness:
  "token (config (set_token [] idle0)) = []
   \<and> getHomeData Undefined Rejected (set_token [] idle0)
       = (Inl (Error ''No token found''), set_token [] idle0)
   \<and> token (config idle0) \<noteq> [] \<and> (500::nat) \<noteq> 200 \<and> (500::nat) \<noteq> 403
   \<and> fst (getHomeStatus (Str ''h1'') (Response 403 HS_invalid) idle0) = Inl (Error ''Unauthorized'')
   \<and> token (config (snd (getHomeStatus (Str ''h1'') (Response 403 HS_invalid) idle0))) = []
   \<and> fst (setRoomThermPoint (room_therm_point (dev_id device0) (Num 21))
             (Response 500 (SJ_body ())) idle0) = Inr EmptyArray
   \<and> fst (getHomeData Undefined (Response 200 (HD_homes [home0])) idle0) = Inr [home0]"
  using cloud_client_envelope [where s = "set_token [] idle0" and h = Undefined and ?r1.0 = Rejected
          and ?r2.0 = Rejected and ?r3.0 = "Rejected :: unit set_json fetched"
          and ?r4.0 = "Rejected :: unit set_json fetched"
          and p = "room_therm_point (dev_id device0) (Num 21)"
          and m = "room_therm_mode (dev_id device0) (Str ''off'')"
          and ?j1.0 = HD_invalid and ?j2.0 = HS_invalid and ?j3.0 = "SJ_body ()" and ?j4.0 = "SJ_body ()"
          and status = 500 and homes = "[home0]" and st = "\<lparr>hs_rooms = [], hs_modules = []\<rparr>"
          and ?b3.0 = "()" and ?b4.0 = "()"]
        cloud_client_envelope [where s = idle0 and h = "Str ''h1''" and ?r1.0 = Rejected
          and ?r2.0 = Rejected and ?r3.0 = "Rejected :: unit set_json fetched"
          and ?r4.0 = "Rejected :: unit set_json fetched"
          and p = "room_therm_point (dev_id device0) (Num 21)"
          and m = "room_therm_mode (dev_id device0) (Str ''off'')"
          and ?j1.0 = HD_invalid and ?j2.0 = HS_invalid and ?j3.0 = "SJ_body ()" and ?j4.0 = "SJ_body ()"
          and status = 500 and homes = "[home0]" and st = "\<lparr>hs_rooms = [], hs_modules = []\<rparr>"
          and ?b3.0 = "()" and ?b4.0 = "()"]
        cloud_client_envelope [where s = idle0 and h = Undefined and ?r1.0 = Rejected
          and ?r2.0 = Rejected and ?r3.0 = "Rejected :: unit set_json fetched"
          and ?r4.0 = "Rejected :: unit set_json fetched"
          and p = "room_therm_point (dev_id device0) (Num 21)"
          and m = "room_therm_mode (dev_id device0) (Str ''off'')"
          and ?j1.0 = HD_invalid and ?j2.0 = HS_invalid and ?j3.0 = "SJ_body ()" and ?j4.0 = "SJ_body ()"
          and status = 500 and homes = "[home0]" and st = "\<lparr>hs_rooms = [], hs_modules = []\<rparr>"
          and ?b3.0 = "()" and ?b4.0 = "()"]
  by (simp add: idle0_eq cfg0_def set_token_def)

text \<open>
  The claim C1 as the spec words it fails on the third case: a status 500 gives no
  error, the call returns the empty array. (A 204, a 2xx status, gives the empty array
  as well, whatever the body.)
\<close>

theorem cloud_client_remote_error_counterexample:
  "fst (getHomeStatus (Str ''h1'') (Response 500 HS_invalid) idle0) = Inr EmptyArray
   \<and> fst (getHomeData Undefined (Response 500 HD_invalid) idle0) = Inr []
   \<and> fst (getHomeData Undefined (Response 204 (HD_homes [home0])) idle0) = Inr []"
  by (simp add: op_defs ok_def idle0_eq cfg0_def fetch_def)

lemma token_refresh_begin: "token (config (snd (refresh_begin s))) = []"
  by (simp add: refresh_begin_def set_token_def fetch_def Let_def)

lemma token_timer_fires: "token (config s) = [] \<Longrightarrow> token (config (snd (timer_fires h s))) = []"
  by (simp add: timer_fires_def token_refresh_begin)

lemma token_unInit: "token (config (unInit s)) = token (config s)"
  by (simp add: unInit_def clearTimeout_def split: option.splits)

lemma step_keeps_empty:
  assumes "token (config s) = []" and "\<not> stores_token ev"
  shows "token (config (step ev s)) = []"
proof (cases ev)
  case (Refresh_answered reply now now')
  with assms show ?thesis
    by (cases reply)
       (auto simp add: refresh_resume_def updateConfig_def ok_def split: option.splits)
next
  case (Exchange_answered reply now now')
  with assms show ?thesis
    by (cases reply) (auto simp add: authenticate_exchange_def ok_def split: option.splits)
next
  case (Homes_answered reply)
  with assms show ?thesis
    by (auto simp add: getHomeData_resume_def token_forbidden
          split: fetched.splits homesdata_json.splits)
next
  case (Status_answered reply)
  with assms show ?thesis
    by (auto simp add: getHomeStatus_resume_def token_forbidden
          split: fetched.splits homestatus_json.splits)
next
  case (Set_answered reply)
  with assms show ?thesis
    by (auto simp add: set_resume_def token_forbidden split: fetched.splits set_json.splits)
qed (use assms in \<open>simp_all add: token_timer_fires token_refresh_begin token_unInit
      authenticate_check_def fetch_def getHomeData_begin_def getHomeStatus_begin_def
      setRoomThermPoint_begin_def setThermostatMode_begin_def\<close>)

lemma run_keeps_empty:
  "token (config s) = [] \<Longrightarrow> \<forall>ev \<in> set evs. \<not> stores_token ev \<Longrightarrow> token (config (run evs s)) = []"
  unfolding run_def
  by (induction evs arbitrary: s) (simp_all add: step_keeps_empty)

text \<open>
  C10, as the code has it. \<open>refresh()\<close> empties the stored access token first: after
  the part of \<open>refresh\<close> that runs before the token endpoint is contacted the token is
  empty, whether or not a request was sent. So with no refresh token stored \<open>refresh\<close>
  ends there, the token empty and no request sent, and after a response other than 200
  the token is empty. From the start of a refresh, through whatever happens to the
  client, every operation of the cloud client fails with \<open>No token found\<close>, sending
  nothing, until a 200 answer to a refresh or to an authorization exchange stores tokens.
\<close>

theorem refresh_clears_token_first:
  "token (config (snd (refresh_begin s))) = []
   \<and> (refresh_token (config s) = [] \<longrightarrow>
        refresh reply now now' s = (None, snd (refresh_begin s))
        \<and> fetched (snd (refresh_begin s)) = fetched s)
   \<and> (status \<noteq> 200 \<longrightarrow> token (config (snd (refresh (Response status j) now now' s))) = [])
   \<and> ((\<forall>ev \<in> set evs. \<not> stores_token ev) \<longrightarrow>
       (let s1 = run (evs :: 'b event list) (snd (refresh_begin s)) in
        getHomeData h r1 s1 = (Inl (Error ''No token found''), s1)
        \<and> getHomeStatus h r2 s1 = (Inl (Error ''No token found''), s1)
        \<and> setRoomThermPoint p (r3 :: 'b set_json fetched) s1 = (Inl (Error ''No token found''), s1)
        \<and> setThermostatMode m (r4 :: 'b set_json fetched) s1 = (Inl (Error ''No token found''), s1)))"
proof -
  have a: "token (config (snd (refresh_begin s))) = []"
    by (rule token_refresh_begin)
  have b: "refresh_token (config s) = [] \<longrightarrow>
        refresh reply now now' s = (None, snd (refresh_begin s))
        \<and> fetched (snd (refresh_begin s)) = fetched s"
    by (simp add: refresh_def refresh_begin_def set_token_def Let_def)
  have c: "status \<noteq> 200 \<longrightarrow> token (config (snd (refresh (Response status j) now now' s))) = []"
    by (simp add: netatmo_defs Let_def)
  have d: "getHomeData h r1 (run evs (snd (refresh_begin s)))
             = (Inl (Error ''No token found''), run evs (snd (refresh_begin s)))
        \<and> getHomeStatus h r2 (run evs (snd (refresh_begin s)))
             = (Inl (Error ''No token found''), run evs (snd (refresh_begin s)))
        \<and> setRoomThermPoint p r3 (run evs (snd (refresh_begin s)))
             = (Inl (Error ''No token found''), run evs (snd (refresh_begin s)))
        \<and> setThermostatMode m r4 (run evs (snd (refresh_begin s)))
             = (Inl (Error ''No token found''), run evs (snd (refresh_begin s)))"
    if "\<forall>ev \<in> set evs. \<not> stores_token ev"
    by (simp add: no_token_ops [OF run_keeps_empty [OF a that]])
  show ?thesis
    using a b c d by (simp add: Let_def)
qed

theorem refresh_clears_token_first_witness:
  "refresh_token (config idle0) = [] \<and> (400::nat) \<noteq> 200
   \<and> token (config idle0) = ''tok''
   \<and> refresh (Response 200 (Some data0)) 10 11 idle0 = (None, set_token [] idle0)
   \<and> token (config (snd (refresh (Response 400 None) 10 11 (new_Netatmo cfg0 0)))) = []
   \<and> \<not> stores_token (Refresh_answered (Response 400 None) 10 11 :: unit event)
   \<and> fst (getHomeStatus (Str ''h1'') (Response 200 (HS_home \<lparr>hs_rooms = [], hs_modules = []\<rparr>))
            (run [Status_called (Str ''h1''), Refresh_starts,
                  Refresh_answered (Response 400 None) 10 11 :: unit event]
               (snd (refresh_begin (new_Netatmo cfg0 0))))) = Inl (Error ''No token found'')"
  using refresh_clears_token_first [where s = idle0 and reply = "Response 200 (Some data0)"
          and now = 10 and now' = 11 and status = 400 and j = None and h = "Str ''h1''"
          and ?r1.0 = Rejected
          and ?r2.0 = "Response 200 (HS_home \<lparr>hs_rooms = [], hs_modules = []\<rparr>)"
          and p = "room_therm_point (dev_id device0) (Num 21)"
          and ?r3.0 = "Rejected :: unit set_json fetched"
          and m = "room_therm_mode (dev_id device0) (Str ''off'')"
          and ?r4.0 = "Rejected :: unit set_json fetched"
          and evs = "[]"]
        refresh_clears_token_first [where s = "new_Netatmo cfg0 0" and reply = "Response 200 (Some data0)"
          and now = 10 and now' = 11 and status = 400 and j = None and h = "Str ''h1''"
          and ?r1.0 = Rejected
          and ?r2.0 = "Response 200 (HS_home \<lparr>hs_rooms = [], hs_modules = []\<rparr>)"
          and p = "room_therm_point (dev_id device0) (Num 21)"
          and ?r3.0 = "Rejected :: unit set_json fetched"
          and m = "room_therm_mode (dev_id device0) (Str ''off'')"
          and ?r4.0 = "Rejected :: unit set_json fetched"
          and evs = "[Status_called (Str ''h1''), Refresh_starts,
                  Refresh_answered (Response 400 None) 10 11]"]
  by (simp add: Let_def idle0_eq cfg0_def refresh_begin_def set_token_def)

text \<open>
  The claim C10 as the spec words it, for as long as any refresh is in flight, fails:
  \<open>refresh\<close> has no guard against a second refresh. Two status requests are answered
  403 and each answer starts a refresh, so two token requests are in flight. The 200
  answer to one of them stores a token while the other is still unanswered, and an
  operation called then passes the token check and returns its payload.
\<close>

theorem refresh_overlap_counterexample:
  "length (filter (\<lambda>r. url r = token_url) (fetched overlap0)) = 2
   \<and> token (config overlap0) = []
   \<and> token (config (snd (refresh_resume (Response 200 (Some data0)) 10 11 overlap0))) = ''tok2''
   \<and> length (filter (\<lambda>r. url r = token_url)
        (fetched (snd (refresh_resume (Response 200 (Some data0)) 10 11 overlap0)))) = 2
   \<and> fst (getHomeData Undefined (Response 200 (HD_homes [home0]))
        (snd (refresh_resume (Response 200 (Some data0)) 10 11 overlap0))) = Inr [home0]"
  by (simp add: overlap0_def op_defs netatmo_defs forbidden_def new_Netatmo_def cfg0_def data0_def
        token_url_def Let_def)

section \<open>The authorization-code flow: resuming with the callback\<close>

text \<open>
  C4. When the callback's \<open>state\<close> is missing or differs from the nonce, or its
  \<open>code\<close> is missing, the flow fails with an error (\<open>Authentication flow failed\<close>,
  with the payload's \<open>error\<close> field) and the whole state, the token store included, is
  as before: nothing was sent. The token endpoint is contacted only when both checks
  pass, with the code; and when it then answers with a status other than 200 the flow
  fails with an error as well, the token store unchanged.
\<close>

theorem authenticate_resume_checks:
  "((\<not> truthy_str (cb_state data) \<or> cb_state data \<noteq> Some state \<or> \<not> truthy_str (cb_code data)) \<longrightarrow>
      authenticate_resume scopes redirectUri state data reply now now' s =
        (Some (Error (''Authentication flow failed. Possible error: '' @ template (cb_error data))), s))
   \<and> (fetched (snd (authenticate_resume scopes redirectUri state data reply now now' s)) \<noteq> fetched s
        \<longrightarrow> cb_state data = Some state \<and> truthy_str (cb_state data) \<and> truthy_str (cb_code data))
   \<and> (cb_state data = Some state \<and> truthy_str (cb_state data) \<and> truthy_str (cb_code data) \<longrightarrow>
        (\<exists>r. authenticate_check scopes redirectUri state data s = (None, fetch r s)
             \<and> url r = token_url
             \<and> map_of (body r) ''code'' = Some (Str (template (cb_code data)))
             \<and> map_of (body r) ''grant_type'' = Some (Str ''authorization_code'')))
   \<and> (cb_state data = Some state \<and> truthy_str (cb_state data) \<and> truthy_str (cb_code data)
        \<and> status \<noteq> 200 \<longrightarrow>
      fst (authenticate_resume scopes redirectUri state data (Response status j) now now' s) =
        Some (Error ''Authentication flow failed while retrieving token.'')
      \<and> config (snd (authenticate_resume scopes redirectUri state data (Response status j) now now' s))
          = config s
      \<and> length (fetched (snd (authenticate_resume scopes redirectUri state data (Response status j)
            now now' s))) = Suc (length (fetched s)))"
  by (auto simp add: authenticate_resume_def authenticate_check_def authenticate_exchange_def
        fetch_def ok_def)

theorem authenticate_resume_checks_witness:
  "\<not> truthy_str (cb_code denied0)
   \<and> authenticate_resume [''read_thermostat''] ''http://gw'' ''5f3a'' denied0 Rejected 0 0 idle0
       = (Some (Error ''Authentication flow failed. Possible error: access_denied''), idle0)
   \<and> authenticate_resume [''read_thermostat''] ''http://gw'' ''77'' granted0 Rejected 0 0 idle0
       = (Some (Error ''Authentication flow failed. Possible error: undefined''), idle0)
   \<and> cb_state granted0 = Some ''5f3a'' \<and> truthy_str (cb_state granted0) \<and> truthy_str (cb_code granted0)
   \<and> (400::nat) \<noteq> 200
   \<and> fst (authenticate_resume [''read_thermostat''] ''http://gw'' ''5f3a'' granted0 (Response 400 None)
         0 0 idle0) = Some (Error ''Authentication flow failed while retrieving token.'')
   \<and> fetched (snd (authenticate_resume [''read_thermostat''] ''http://gw'' ''5f3a'' granted0
         (Response 400 None) 0 0 idle0)) \<noteq> fetched idle0"
  using authenticate_resume_checks [where data = denied0 and state = "''5f3a''"
          and scopes = "[''read_thermostat'']" and redirectUri = "''http://gw''" and reply = Rejected
          and now = 0 and now' = 0 and s = idle0 and status = 400 and j = None]
        authenticate_resume_checks [where data = granted0 and state = "''77''"
          and scopes = "[''read_thermostat'']" and redirectUri = "''http://gw''" and reply = Rejected
          and now = 0 and now' = 0 and s = idle0 and status = 400 and j = None]
        authenticate_resume_checks [where data = granted0 and state = "''5f3a''"
          and scopes = "[''read_thermostat'']" and redirectUri = "''http://gw''"
          and reply = "Response 400 None"
          and now = 0 and now' = 0 and s = idle0 and status = 400 and j = None]
  by (auto simp add: denied0_def granted0_def idle0_eq)

section \<open>Change detection of a property\<close>

text \<open>
  C6, as the code has it. \<open>updateProperty\<close> compares with \<open>!=\<close>, JavaScript's loose
  inequality. When the new value loosely equals the cached one, the device is unchanged
  and nothing is notified; when it does not, the cached value becomes the new value and
  exactly one notification is sent, the other properties untouched. For two numbers and
  for two strings loose equality is equality; \<open>undefined\<close> and \<open>null\<close> are loosely
  equal; \<open>NaN\<close> is not loosely equal to itself.
\<close>

theorem updateProperty_change_detection:
  assumes "properties d name = Some cached"
  shows "(loose_eq toNumber cached v \<longrightarrow> updateProperty toNumber name v d = Inr d)
     \<and> (\<not> loose_eq toNumber cached v \<longrightarrow>
          (\<exists>d'. updateProperty toNumber name v d = Inr d'
             \<and> properties d' name = Some v
             \<and> notifications d' = notifications d @ [(name, v)]
             \<and> (\<forall>n. n \<noteq> name \<longrightarrow> properties d' n = properties d n)
             \<and> dev_id d' = dev_id d))
     \<and> loose_eq toNumber (Num x) (Num y) = (x = y)
     \<and> loose_eq toNumber (Str t) (Str u) = (t = u)
     \<and> loose_eq toNumber Undefined Null
     \<and> \<not> loose_eq toNumber NaN NaN"
  using assms by (simp add: updateProperty_def)

lemma properties_device0: "properties device0 ''temperature'' = Some Undefined"
  by (simp add: device0_def new_RoomDevice_def room_properties_def add_property_def
        new_Property_def Let_def)

theorem updateProperty_change_detection_witness:
  "properties device0 ''temperature'' = Some Undefined
   \<and> \<not> loose_eq (\<lambda>t. None) Undefined (Num 21)
   \<and> loose_eq (\<lambda>t. None) Undefined Undefined
   \<and> updateProperty (\<lambda>t. None) ''temperature'' Undefined device0 = Inr device0
   \<and> (\<exists>d'. updateProperty (\<lambda>t. None) ''temperature'' (Num 21) device0 = Inr d'
         \<and> properties d' ''temperature'' = Some (Num 21)
         \<and> notifications d' = notifications device0 @ [(''temperature'', Num 21)])"
  using updateProperty_change_detection [of device0 "''temperature''" Undefined "\<lambda>t. None" "Num 21"]
    updateProperty_change_detection [of device0 "''temperature''" Undefined "\<lambda>t. None" Undefined]
    properties_device0
  by auto

text \<open>
  The claim C6 with equal and differing read as the same and another value fails at the
  edges of loose equality: \<open>null\<close> on a cached \<open>undefined\<close> is another value, yet the
  cache is not updated and nothing is notified; \<open>NaN\<close> on a cached \<open>NaN\<close> is the same
  value, yet a notification is sent.
\<close>

theorem updateProperty_loose_counterexample:
  "Null \<noteq> Undefined
   \<and> properties device0 ''temperature'' = Some Undefined
   \<and> updateProperty (\<lambda>t. None) ''temperature'' Null device0 = Inr device0
   \<and> updateProperty (\<lambda>t. None) ''temperature'' NaN
        (device0\<lparr>properties := (properties device0)(''temperature'' \<mapsto> NaN)\<rparr>)
      = Inr (device0\<lparr>properties := (properties device0)(''temperature'' \<mapsto> NaN),
                     notifications := notifications device0 @ [(''temperature'', NaN)]\<rparr>)"
  by (simp add: updateProperty_def properties_device0)

section \<open>Polling: a failing home and the other homes\<close>
















lemma reject_env: "\<exists>n' u'. reject (apsnd (env n u) x) = env n' u' (snd x)"
  by (cases x) (auto simp add: reject_def env_def split: option.splits)













end
